theory Spec2Isabelle
  imports
    Complex_Main
    "HOL-Library.Multiset"
    "HOL-Library.Char_ord"
    "HOL-Library.List_Lexorder"
    "HOL-Library.Monad_Syntax"
begin

section \<open>Transactions\<close>

text \<open>
  A pandas \<open>Timestamp\<close> is kept as the proleptic Gregorian day number of its date
  (Python's \<open>date.toordinal()\<close>, day 1 being Monday 0001-01-01) and its hour; no analyzer
  reads anything finer. \<open>strftime('%Y-%m-%d')\<close> and \<open>.dt.date\<close> are functions of the day
  number alone and are modelled by it. Money is a Python float in the source; the model
  computes with exact reals, so rounding error of binary floating point is not modelled.
\<close>

record timestamp =
  ordinal :: int
  hour :: int

definition weekday :: "timestamp \<Rightarrow> int" where
  \<comment> \<open>Monday = 0 ... Sunday = 6\<close>
  "weekday d = (ordinal d + 6) mod 7"

text \<open>
  One row of the transaction DataFrame. The columns \<open>Is_Expense\<close> and \<open>Abs_Amount\<close> are the
  calculated fields that \<open>_clean_dataframe\<close> (transaction_retriever.py, lines 94-95) and the
  sample data derive from \<open>Amount\<close>.
\<close>

record transaction =
  Date :: timestamp
  Description :: string
  Category :: string
  Amount :: real
  Account :: string

definition Is_Expense :: "transaction \<Rightarrow> bool" where
  "Is_Expense t = (Amount t < 0)"

definition Abs_Amount :: "transaction \<Rightarrow> real" where
  "Abs_Amount t = \<bar>Amount t\<bar>"

text \<open>\<open>int(x)\<close> of a Python float truncates towards zero.\<close>

definition py_int :: "real \<Rightarrow> int" where
  "py_int x = (if 0 \<le> x then \<lfloor>x\<rfloor> else \<lceil>x\<rceil>)"

text \<open>
  \<open>frame.groupby(key)\<close>: the group keys come out sorted and without duplicates;
  \<open>[...].sum()\<close> adds the amounts of each group.
\<close>

definition group_keys :: "('a \<Rightarrow> 'k::linorder) \<Rightarrow> 'a list \<Rightarrow> 'k list" where
  "group_keys key rows = sort (remdups (map key rows))"

definition group_rows :: "('a \<Rightarrow> 'k) \<Rightarrow> 'a list \<Rightarrow> 'k \<Rightarrow> 'a list" where
  "group_rows key rows k = filter (\<lambda>t. key t = k) rows"

definition groupby_sum :: "('a \<Rightarrow> 'k::linorder) \<Rightarrow> ('a \<Rightarrow> real) \<Rightarrow> 'a list \<Rightarrow> ('k \<times> real) list" where
  "groupby_sum key val rows =
     map (\<lambda>k. (k, sum_list (map val (group_rows key rows k)))) (group_keys key rows)"

section \<open>Transaction normalizer (transaction_retriever.py)\<close>


















subsection \<open>Vocabulary for the properties of the normalizer\<close>






section \<open>Overspending analyzer (overspending_analyzer.py)\<close>

text \<open>
  The analyzer object: its three fields are read from config.py by \<open>__init__\<close>. The
  dictionary of limits is its list of items (keys distinct, as in any dict).
\<close>

record analyzer =
  budget_limits :: "(string \<times> real) list"
  overspending_threshold :: real
  warning_threshold :: real

definition DAILY_BUDGET_LIMITS :: "(string \<times> real) list" where
  "DAILY_BUDGET_LIMITS =
     [(''Food & Dining'', 50), (''Transportation'', 30), (''Shopping'', 40),
      (''Entertainment'', 25), (''Utilities'', 15), (''Healthcare'', 20),
      (''Subscriptions'', 10), (''Miscellaneous'', 35)]"

definition OverspendingAnalyzer :: analyzer where
  "OverspendingAnalyzer =
     \<lparr>budget_limits = DAILY_BUDGET_LIMITS,
      overspending_threshold = 12 / 10,
      warning_threshold = 8 / 10\<rparr>"

definition budget_get :: "analyzer \<Rightarrow> string \<Rightarrow> real" where
  \<comment> \<open>\<open>self.budget_limits.get(category, 0)\<close>\<close>
  "budget_get A c = (case map_of (budget_limits A) c of None \<Rightarrow> 0 | Some v \<Rightarrow> v)"

definition total_budget :: "analyzer \<Rightarrow> real" where
  \<comment> \<open>\<open>sum(self.budget_limits.values())\<close>\<close>
  "total_budget A = sum_list (map snd (budget_limits A))"

text \<open>
  The per-category dictionary. The keys \<open>status\<close>, \<open>severity\<close> and \<open>savings\<close> are added
  by the branch that classifies the category, so they may be absent.
\<close>

record category_analysis =
  category :: string
  spent :: real
  budget :: real
  percentage_used :: real
  over_amount :: real
  transaction_count :: nat
  status :: "string option"
  severity :: "string option"
  savings :: "real option"

text \<open>
  The recommendation strings are templates filled with a category name and a formatted
  number; a recommendation is modelled as its template and its arguments.
\<close>

datatype recommendation =
    Urgent string real
  | Reduce string real
  | Monitor string real
  | Great_Job string real
  | Daily_Limit_Tip
  | Review_Limits_Tip
  | No_Data

datatype date_text = Day int | No_Data_Date

record analysis =
  date :: date_text
  total_spent :: real
  total_transactions :: nat
  categories_analyzed :: nat
  overspending_alerts :: "category_analysis list"
  warning_alerts :: "category_analysis list"
  within_budget :: "category_analysis list"
  recommendations :: "recommendation list"
  spending_score :: int
  risk_level :: string

definition calculate_severity :: "real \<Rightarrow> string" where
  "calculate_severity p =
     (if p \<ge> 200 then ''Critical''
      else if p \<ge> 150 then ''High''
      else if p \<ge> 120 then ''Medium''
      else ''Low'')"

text \<open>
  Functions that read a dictionary key which may be absent return an option: \<open>None\<close> is
  the \<open>KeyError\<close> Python would raise.
\<close>

fun deduct_alerts :: "int \<Rightarrow> category_analysis list \<Rightarrow> int option" where
  "deduct_alerts base_score [] = Some base_score"
| "deduct_alerts base_score (alert # alerts) =
     (case severity alert of
        None \<Rightarrow> None
      | Some sev \<Rightarrow>
          if sev = ''Critical'' then deduct_alerts (base_score - 30) alerts
          else if sev = ''High'' then deduct_alerts (base_score - 20) alerts
          else if sev = ''Medium'' then deduct_alerts (base_score - 15) alerts
          else deduct_alerts (base_score - 10) alerts)"

definition calculate_spending_score :: "analyzer \<Rightarrow> analysis \<Rightarrow> int option" where
  "calculate_spending_score A an =
     (case deduct_alerts 100 (overspending_alerts an) of
        None \<Rightarrow> None
      | Some s1 \<Rightarrow>
          let s2 = s1 - int (length (warning_alerts an)) * 5;
              s3 = s2 + int (length (within_budget an)) * 3;
              tb = total_budget A;
              s4 = (if tb > 0 \<and> total_spent an < tb * (8 / 10)
                    then s3 + min 15 (py_int ((tb - total_spent an) / tb * 20))
                    else s3)
          in Some (min 100 (max 0 s4)))"

definition determine_risk_level :: "int \<Rightarrow> string" where
  "determine_risk_level score =
     (if score \<ge> 80 then ''Excellent''
      else if score \<ge> 60 then ''Good''
      else if score \<ge> 40 then ''Fair''
      else if score \<ge> 20 then ''Poor''
      else ''Critical'')"

text \<open>\<open>min(xs, key=f)\<close> on a non-empty list: the first element with the least key.\<close>

fun min_by :: "('a \<Rightarrow> real) \<Rightarrow> 'a \<Rightarrow> 'a list \<Rightarrow> 'a" where
  "min_by f best [] = best"
| "min_by f best (x # xs) = (if f x < f best then min_by f x xs else min_by f best xs)"

fun overspending_recommendations :: "category_analysis list \<Rightarrow> recommendation list option" where
  "overspending_recommendations [] = Some []"
| "overspending_recommendations (alert # alerts) =
     (case severity alert of
        None \<Rightarrow> None
      | Some sev \<Rightarrow>
          (case overspending_recommendations alerts of
             None \<Rightarrow> None
           | Some rest \<Rightarrow>
               if sev = ''Critical''
               then Some (Urgent (category alert) (percentage_used alert) # rest)
               else Some (Reduce (category alert) (over_amount alert) # rest)))"

definition generate_recommendations :: "analysis \<Rightarrow> recommendation list option" where
  "generate_recommendations an =
     (case overspending_recommendations (overspending_alerts an) of
        None \<Rightarrow> None
      | Some r1 \<Rightarrow>
          let r2 = r1 @ map (\<lambda>w. Monitor (category w) (percentage_used w)) (warning_alerts an)
          in (case (case within_budget an of
                      [] \<Rightarrow> Some r2
                    | w # ws \<Rightarrow>
                        (let best_category = min_by percentage_used w ws
                         in case savings best_category of
                              None \<Rightarrow> None
                            | Some s \<Rightarrow> Some (r2 @ [Great_Job (category best_category) s]))) of
                None \<Rightarrow> None
              | Some r3 \<Rightarrow>
                  if risk_level an = ''High Risk'' then Some (r3 @ [Daily_Limit_Tip])
                  else if risk_level an = ''Medium Risk'' then Some (r3 @ [Review_Limits_Tip])
                  else Some r3))"

definition empty_analysis :: analysis where
  "empty_analysis =
     \<lparr>date = No_Data_Date, total_spent = 0, total_transactions = 0, categories_analyzed = 0,
      overspending_alerts = [], warning_alerts = [], within_budget = [],
      recommendations = [No_Data], spending_score = 0, risk_level = ''Unknown''\<rparr>"

text \<open>
  The dictionary built for a category (lines 55-62), before the branch that classifies it
  adds \<open>status\<close> and \<open>severity\<close> or \<open>savings\<close>.
\<close>

definition category_dict :: "analyzer \<Rightarrow> transaction list \<Rightarrow> string \<Rightarrow> real \<Rightarrow> category_analysis" where
  "category_dict A expenses c s =
     \<lparr>category = c, spent = s, budget = budget_get A c,
      percentage_used = s / budget_get A c * 100,
      over_amount = s - budget_get A c,
      transaction_count = length (group_rows Category expenses c),
      status = None, severity = None, savings = None\<rparr>"

text \<open>One pass of the loop over \<open>category_spending.items()\<close>.\<close>

definition analyze_category ::
  "analyzer \<Rightarrow> transaction list \<Rightarrow> analysis \<Rightarrow> string \<times> real \<Rightarrow> analysis" where
  "analyze_category A expenses an item =
     (let c = fst item; s = snd item; budget_limit = budget_get A c
      in if budget_limit = 0 then an
         else
           let pct = s / budget_limit * 100;
               ca = category_dict A expenses c s
           in if pct \<ge> overspending_threshold A * 100
              then an\<lparr>overspending_alerts := overspending_alerts an @
                     [ca\<lparr>status := Some ''OVERSPENDING'',
                         severity := Some (calculate_severity pct)\<rparr>]\<rparr>
              else if pct \<ge> warning_threshold A * 100
              then an\<lparr>warning_alerts := warning_alerts an @
                     [ca\<lparr>status := Some ''WARNING'', severity := Some ''Medium''\<rparr>]\<rparr>
              else an\<lparr>within_budget := within_budget an @
                     [ca\<lparr>status := Some ''WITHIN_BUDGET'',
                         savings := Some (budget_limit - s)\<rparr>]\<rparr>)"

definition analyze_daily_overspending :: "analyzer \<Rightarrow> transaction list \<Rightarrow> analysis option" where
  "analyze_daily_overspending A df =
     (case df of
        [] \<Rightarrow> Some empty_analysis
      | first # _ \<Rightarrow>
          let expenses = filter Is_Expense df;
              category_spending = groupby_sum Category Abs_Amount expenses;
              a0 = \<lparr>date = Day (ordinal (Date first)),
                    total_spent = sum_list (map Abs_Amount expenses),
                    total_transactions = length expenses,
                    categories_analyzed = length category_spending,
                    overspending_alerts = [], warning_alerts = [], within_budget = [],
                    recommendations = [], spending_score = 0, risk_level = ''Unknown''\<rparr>;
              a1 = foldl (analyze_category A expenses) a0 category_spending
          in (case calculate_spending_score A a1 of
                None \<Rightarrow> None
              | Some score \<Rightarrow>
                  let a2 = a1\<lparr>spending_score := score,
                              risk_level := determine_risk_level score\<rparr>
                  in (case generate_recommendations a2 of
                        None \<Rightarrow> None
                      | Some recs \<Rightarrow> Some (a2\<lparr>recommendations := recs\<rparr>))))"

subsection \<open>Vocabulary for the properties of the analyzer\<close>





text \<open>
  The score as the specification words it: 100, less a penalty per overspending category
  by severity bucket, less 5 per warning category, plus 3 per category within budget,
  plus the under-budget bonus, clamped to 0..100. The bonus is the whole part of 20 times
  the unspent fraction of the total budget, at most 15, granted when the total spent is
  below 80% of the total budget.
\<close>

definition spec_penalty :: "real \<Rightarrow> int" where
  "spec_penalty p = (if p \<ge> 200 then 30 else if p \<ge> 150 then 20 else if p \<ge> 120 then 15 else 10)"

definition total_expense :: "transaction list \<Rightarrow> real" where
  "total_expense df = sum_list (map Abs_Amount (filter Is_Expense df))"

definition under_budget_bonus :: "analyzer \<Rightarrow> transaction list \<Rightarrow> int" where
  "under_budget_bonus A df =
     (if total_expense df < 8 / 10 * total_budget A
      then min 15 \<lfloor>(total_budget A - total_expense df) / total_budget A * 20\<rfloor>
      else 0)"


subsection \<open>Closed forms of the loop, used in the proofs\<close>

text \<open>
  The three kinds of entry the loop appends for an item \<open>(category, spent)\<close> of
  \<open>category_spending\<close>, the test that selects each, and the result record the analyzer
  returns for a non-empty batch written without the loop.
\<close>

definition item_pct :: "analyzer \<Rightarrow> string \<times> real \<Rightarrow> real" where
  "item_pct A item = snd item / budget_get A (fst item) * 100"

definition over_entry :: "analyzer \<Rightarrow> transaction list \<Rightarrow> string \<times> real \<Rightarrow> category_analysis" where
  "over_entry A ex item = (category_dict A ex (fst item) (snd item))
     \<lparr>status := Some ''OVERSPENDING'',
      severity := Some (calculate_severity (snd item / budget_get A (fst item) * 100))\<rparr>"

definition warn_entry :: "analyzer \<Rightarrow> transaction list \<Rightarrow> string \<times> real \<Rightarrow> category_analysis" where
  "warn_entry A ex item = (category_dict A ex (fst item) (snd item))
     \<lparr>status := Some ''WARNING'', severity := Some ''Medium''\<rparr>"

definition within_entry :: "analyzer \<Rightarrow> transaction list \<Rightarrow> string \<times> real \<Rightarrow> category_analysis" where
  "within_entry A ex item = (category_dict A ex (fst item) (snd item))
     \<lparr>status := Some ''WITHIN_BUDGET'', savings := Some (budget_get A (fst item) - snd item)\<rparr>"

definition is_over :: "analyzer \<Rightarrow> string \<times> real \<Rightarrow> bool" where
  "is_over A item = (budget_get A (fst item) \<noteq> 0 \<and> snd item / budget_get A (fst item) * 100 \<ge> overspending_threshold A * 100)"

definition is_warn :: "analyzer \<Rightarrow> string \<times> real \<Rightarrow> bool" where
  "is_warn A item = (budget_get A (fst item) \<noteq> 0 \<and> \<not> snd item / budget_get A (fst item) * 100 \<ge> overspending_threshold A * 100
      \<and> snd item / budget_get A (fst item) * 100 \<ge> warning_threshold A * 100)"

definition is_within :: "analyzer \<Rightarrow> string \<times> real \<Rightarrow> bool" where
  "is_within A item = (budget_get A (fst item) \<noteq> 0 \<and> \<not> snd item / budget_get A (fst item) * 100 \<ge> overspending_threshold A * 100
      \<and> \<not> snd item / budget_get A (fst item) * 100 \<ge> warning_threshold A * 100)"

definition over_rec :: "analyzer \<Rightarrow> string \<times> real \<Rightarrow> recommendation" where
  "over_rec A item = (if item_pct A item \<ge> 200 then Urgent (fst item) (item_pct A item)
                      else Reduce (fst item) (snd item - budget_get A (fst item)))"

definition warn_rec :: "analyzer \<Rightarrow> string \<times> real \<Rightarrow> recommendation" where
  "warn_rec A item = Monitor (fst item) (item_pct A item)"

definition best_rec :: "category_analysis list \<Rightarrow> recommendation list" where
  "best_rec ws = (case ws of [] \<Rightarrow> []
      | w # ws' \<Rightarrow> [Great_Job (category (min_by percentage_used w ws'))
                      (budget (min_by percentage_used w ws') - spent (min_by percentage_used w ws'))])"

definition score_of :: "analyzer \<Rightarrow> transaction list \<Rightarrow> int" where
  "score_of A ex =
     (let cs = groupby_sum Category Abs_Amount ex;
          s3 = 100 - sum_list (map (\<lambda>i. spec_penalty (item_pct A i)) (filter (is_over A) cs))
                 - int (length (filter (is_warn A) cs)) * 5
                 + int (length (filter (is_within A) cs)) * 3;
          tb = total_budget A;
          ts = sum_list (map Abs_Amount ex)
      in min 100 (max 0 (if tb > 0 \<and> ts < tb * (8 / 10)
                          then s3 + min 15 (py_int ((tb - ts) / tb * 20)) else s3)))"

definition recs_of :: "analyzer \<Rightarrow> transaction list \<Rightarrow> recommendation list" where
  "recs_of A ex =
     (let cs = groupby_sum Category Abs_Amount ex
      in map (over_rec A) (filter (is_over A) cs) @ map (warn_rec A) (filter (is_warn A) cs) @
         best_rec (map (within_entry A ex) (filter (is_within A) cs)))"

definition result_of :: "analyzer \<Rightarrow> date_text \<Rightarrow> transaction list \<Rightarrow> analysis" where
  "result_of A d ex =
     (let cs = groupby_sum Category Abs_Amount ex
      in \<lparr>date = d, total_spent = sum_list (map Abs_Amount ex),
          total_transactions = length ex, categories_analyzed = length cs,
          overspending_alerts = map (over_entry A ex) (filter (is_over A) cs),
          warning_alerts = map (warn_entry A ex) (filter (is_warn A) cs),
          within_budget = map (within_entry A ex) (filter (is_within A) cs),
          recommendations = recs_of A ex, spending_score = score_of A ex,
          risk_level = determine_risk_level (score_of A ex)\<rparr>)"

subsection \<open>Sample batches\<close>

text \<open>
  Rows dated 2025-01-29 (day 739280, a Wednesday). \<open>sample_batch\<close> is the basic
  overspending scenario of the specification with one category in warning, one within
  budget, one without a configured limit, and an income row.
\<close>

definition row :: "int \<Rightarrow> string \<Rightarrow> string \<Rightarrow> real \<Rightarrow> transaction" where
  "row d desc c a =
     \<lparr>Date = \<lparr>ordinal = d, hour = 0\<rparr>, Description = desc, Category = c, Amount = a,
      Account = ''Checking''\<rparr>"

definition sample_batch :: "transaction list" where
  "sample_batch =
     [row 739280 ''Lunch at Restaurant'' ''Food & Dining'' (- (2875 / 100)),
      row 739280 ''Grocery Store'' ''Food & Dining'' (- (4530 / 100)),
      row 739280 ''Dinner Delivery'' ''Food & Dining'' (- (3250 / 100)),
      row 739280 ''Uber Ride'' ''Transportation'' (- (1550 / 100)),
      row 739280 ''Gas Station'' ''Transportation'' (- 42),
      row 739280 ''Amazon Purchase'' ''Shopping'' (- 35),
      row 739280 ''Movie Rental'' ''Entertainment'' (- 5),
      row 739280 ''Birthday Present'' ''Gifts'' (- 10),
      row 739280 ''Salary Deposit'' ''Income'' 200]"


definition critical_batch :: "transaction list" where
  "critical_batch =
     [row 739280 ''Catering'' ''Food & Dining'' (- 200),
      row 739280 ''Car Repair'' ''Transportation'' (- 120),
      row 739280 ''Electronics Store'' ''Shopping'' (- 160),
      row 739280 ''Concert Tickets'' ''Entertainment'' (- 100)]"


section \<open>Risk officer (specialized_ai_roles.py)\<close>

text \<open>
  pandas \<open>Series.mean()\<close> and \<open>Series.std()\<close> (the sample standard deviation, with
  \<open>n - 1\<close> in the denominator). On fewer than two values \<open>std\<close> is NaN, modelled as
  \<open>None\<close>; \<open>mean\<close> is only taken of non-empty series.
\<close>

definition series_mean :: "real list \<Rightarrow> real" where
  "series_mean xs = sum_list xs / real (length xs)"

definition series_std :: "real list \<Rightarrow> real option" where
  "series_std xs =
     (if length xs < 2 then None
      else Some (sqrt (sum_list (map (\<lambda>x. (x - series_mean xs)\<^sup>2) xs) / real (length xs - 1))))"

definition groupby_size :: "('a \<Rightarrow> 'k::linorder) \<Rightarrow> 'a list \<Rightarrow> ('k \<times> nat) list" where
  "groupby_size key rows = map (\<lambda>k. (k, length (group_rows key rows k))) (group_keys key rows)"

text \<open>\<open>Series.idxmax()\<close> with its maximum: the first entry holding the largest value.\<close>

fun idxmax :: "('k \<times> real) list \<Rightarrow> ('k \<times> real) option" where
  "idxmax [] = None"
| "idxmax (x # xs) =
     (case idxmax xs of
        None \<Rightarrow> Some x
      | Some y \<Rightarrow> if snd x \<ge> snd y then Some x else Some y)"

text \<open>
  The dictionary a risk check returns. The early returns hold \<open>is_risk\<close> and \<open>severity\<close>
  only; each check adds keys of its own. The behavioural patterns and the trend
  description are strings built from numbers; they are kept as their arguments. The
  recommendation strings are given without the pictograph that opens each in the source.
\<close>

datatype risky_pattern =
    High_weekend_spending real
  | Frequent_late_night_spending
  | Frequent_multiple_daily_transactions

record risk_dict =
  is_risk :: bool
  severity :: int
  recommendations :: "string list option"
  score :: "real option"
  category :: "string option"
  percentage :: "real option"
  trend_description :: "nat option"
  description :: "(real \<times> real) option"
  pattern :: "risky_pattern list option"

definition no_risk :: risk_dict where
  \<comment> \<open>\<open>{'is_risk': False, 'severity': 0}\<close>\<close>
  "no_risk =
     \<lparr>is_risk = False, severity = 0, recommendations = None, score = None, category = None,
      percentage = None, trend_description = None, description = None, pattern = None\<rparr>"

text \<open>The two entries of \<open>self.risk_thresholds\<close> that the checks read.\<close>

definition high_volatility :: real where "high_volatility = 100"
definition concentration_risk :: real where "concentration_risk = 4 / 10"

definition assess_spending_volatility :: "transaction list \<Rightarrow> risk_dict option" where
  "assess_spending_volatility df =
     (if df = [] \<or> length df < 7 then Some no_risk
      else
        let expenses = filter Is_Expense df;
            daily_spending = map snd (groupby_sum (\<lambda>t. ordinal (Date t)) Abs_Amount expenses)
        in if length daily_spending < 3 then Some no_risk
           else
             (case series_std daily_spending of
                None \<Rightarrow> None
              | Some volatility \<Rightarrow>
                  let mean_spending = series_mean daily_spending;
                      coefficient_of_variation =
                        (if mean_spending > 0 then volatility / mean_spending else 0);
                      is_high_risk = (volatility > high_volatility)
                  in Some (no_risk
                       \<lparr>is_risk := is_high_risk,
                        score := Some volatility,
                        severity := min 100 (py_int (coefficient_of_variation * 100)),
                        recommendations := Some
                          (if is_high_risk
                           then [''Implement daily spending budgets to reduce volatility'',
                                 ''Set up spending alerts for unusual transaction amounts'',
                                 ''Create a weekly spending plan to smooth out daily variations'']
                           else [])\<rparr>)))"

definition assess_category_concentration :: "transaction list \<Rightarrow> risk_dict option" where
  "assess_category_concentration df =
     (if df = [] then Some no_risk
      else
        let expenses = filter Is_Expense df;
            category_totals = groupby_sum Category Abs_Amount expenses;
            total_spending = sum_list (map snd category_totals)
        in if total_spending = 0 then Some no_risk
           else
             (case idxmax category_totals of
                None \<Rightarrow> None
              | Some (max_category, max_total) \<Rightarrow>
                  let max_percentage = max_total / total_spending;
                      is_concentrated = (max_percentage > concentration_risk)
                  in Some (no_risk
                       \<lparr>is_risk := is_concentrated,
                        category := Some max_category,
                        percentage := Some (max_percentage * 100),
                        severity := min 100 (py_int (max_percentage * 150)),
                        recommendations := Some
                          (if is_concentrated
                           then [''Diversify spending away from '' @ max_category,
                                 ''Review if high {max_category} spending is necessary'',
                                 ''Set stricter limits for over-concentrated categories'']
                           else [])\<rparr>)))"

text \<open>
  \<open>analysis_results\<close>: of the nested dictionary the checks read the category trends
  (\<open>analysis_results['trend_analysis']['category_trends']\<close>, empty when a key is missing)
  and two entries of \<open>cash_flow_health\<close>, each read with \<open>.get(key, 0)\<close>.
\<close>

record trend_data =
  trend_direction :: "string option"
  trend_slope :: "real option"
  average_daily :: "real option"

record analysis_results =
  category_trends :: "(string \<times> trend_data) list"
  net_cash_flow :: "real option"
  expense_to_income_ratio :: "real option"

definition get_or :: "'a option \<Rightarrow> 'a \<Rightarrow> 'a" where
  \<comment> \<open>\<open>d.get(key, default)\<close> on the entry of the key\<close>
  "get_or v d = (case v of None \<Rightarrow> d | Some x \<Rightarrow> x)"

text \<open>The loop of \<open>_assess_spending_trends\<close>: the deteriorating categories with their slopes.\<close>

fun deteriorating :: "(string \<times> trend_data) list \<Rightarrow> (string \<times> real) list" where
  "deteriorating [] = []"
| "deteriorating ((c, td) # rest) =
     (if trend_direction td = Some ''increasing'' \<and> get_or (trend_slope td) 0 > 10
      then (c, get_or (trend_slope td) 0) # deteriorating rest
      else deteriorating rest)"

definition assess_spending_trends :: "analysis_results \<Rightarrow> risk_dict" where
  "assess_spending_trends ar =
     (let deteriorating_categories = deteriorating (category_trends ar);
          total_negative_slope = sum_list (map snd deteriorating_categories);
          risky = (length deteriorating_categories \<ge> 2 \<or> total_negative_slope > 50)
      in no_risk
          \<lparr>is_risk := risky,
           trend_description := Some (length deteriorating_categories),
           severity := min 100 (py_int total_negative_slope),
           recommendations := Some
             (if risky
              then map (\<lambda>cat. ''Address increasing spending in '' @ fst cat)
                     (take 3 deteriorating_categories) @
                   [''Implement trend-based spending alerts'',
                    ''Review monthly to catch negative trends early'']
              else [])\<rparr>)"

definition assess_liquidity_risk :: "analysis_results \<Rightarrow> risk_dict" where
  "assess_liquidity_risk ar =
     (let net_flow = get_or (net_cash_flow ar) 0;
          expense_ratio = get_or (expense_to_income_ratio ar) 0;
          negative_cash_flow = (net_flow < 0);
          high_expense_ratio = (expense_ratio > 9 / 10);
          risky = (negative_cash_flow \<or> high_expense_ratio);
          s1 = (if negative_cash_flow then 50 else 0);
          s2 = (if high_expense_ratio then s1 + py_int ((expense_ratio - 7 / 10) * 100) else s1)
      in no_risk
          \<lparr>is_risk := risky,
           description := Some (expense_ratio, net_flow),
           severity := min 100 s2,
           recommendations := Some
             (if risky
              then [''Immediate expense reduction needed - negative cash flow'',
                    ''Build emergency fund to 3-6 months expenses'',
                    ''Track cash flow weekly until positive'',
                    ''Target expense ratio below 80% of income'']
              else [])\<rparr>)"

definition assess_behavioral_patterns :: "transaction list \<Rightarrow> risk_dict" where
  "assess_behavioral_patterns df =
     (if df = [] then no_risk
      else
        let expenses = filter Is_Expense df;
            weekend_spending =
              sum_list (map Abs_Amount (filter (\<lambda>t. weekday (Date t) \<ge> 5) expenses));
            weekday_spending =
              sum_list (map Abs_Amount (filter (\<lambda>t. weekday (Date t) < 5) expenses));
            weekend_ratio = weekend_spending / (weekend_spending + weekday_spending);
            weekend_hit = (weekend_spending > 0 \<and> weekday_spending > 0 \<and> weekend_ratio > 4 / 10);
            late_night_transactions =
              length (filter (\<lambda>t. hour (Date t) \<ge> 22 \<or> hour (Date t) \<le> 6) expenses);
            late_hit = (real late_night_transactions > real (length expenses) * (2 / 10));
            daily_transaction_counts = groupby_size (\<lambda>t. ordinal (Date t)) expenses;
            high_transaction_days = length (filter (\<lambda>d. snd d > 5) daily_transaction_counts);
            many_hit = (real high_transaction_days > real (length daily_transaction_counts) * (3 / 10));
            risky_patterns =
              (if weekend_hit then [High_weekend_spending weekend_ratio] else []) @
              (if late_hit then [Frequent_late_night_spending] else []) @
              (if many_hit then [Frequent_multiple_daily_transactions] else []);
            sev = (if weekend_hit then 30 else 0) + (if late_hit then 20 else 0) +
                  (if many_hit then 25 else 0);
            risky = (length risky_patterns > 0)
        in no_risk
            \<lparr>is_risk := risky,
             pattern := Some risky_patterns,
             severity := min 100 sev,
             recommendations := Some
               (if risky
                then [''Implement 24-hour waiting period for non-essential purchases'',
                      ''Use spending apps with real-time alerts'',
                      ''Set specific times for shopping to avoid impulse buying'',
                      ''Review triggers that lead to overspending patterns'']
                else [])\<rparr>)"

definition determine_overall_risk_level :: "int \<Rightarrow> nat \<Rightarrow> string" where
  "determine_overall_risk_level max_severity risk_factor_count =
     (if max_severity \<ge> 80 \<or> risk_factor_count \<ge> 4 then ''High Risk''
      else if max_severity \<ge> 60 \<or> risk_factor_count \<ge> 3 then ''Moderate Risk''
      else if max_severity \<ge> 40 \<or> risk_factor_count \<ge> 2 then ''Low Risk''
      else if risk_factor_count \<ge> 1 then ''Minimal Risk''
      else ''Low Risk'')"

text \<open>The factor strings of \<open>assess_financial_risks\<close>, kept as template and arguments.\<close>

datatype risk_factor =
    High_spending_volatility real
  | Over_concentrated string real
  | Negative_spending_trend nat
  | Liquidity_concern real real
  | Behavioral_pattern_risk "risky_pattern list"

record RiskAssessment =
  risk_level :: string
  confidence :: real
  factors :: "risk_factor list"
  recommendations :: "string list"
  severity_score :: int

text \<open>
  The three lists \<open>assess_financial_risks\<close> grows, and the step it repeats for each check:
  when the check reports a risk, append its factor string, its recommendations and its
  severity. Reading a key the dictionary lacks is the \<open>KeyError\<close>, \<open>None\<close>.
\<close>

record risk_lists =
  risk_factors :: "risk_factor list"
  recs :: "string list"
  severity_scores :: "int list"

definition note_risk :: "risk_dict \<Rightarrow> risk_factor option \<Rightarrow> risk_lists \<Rightarrow> risk_lists option" where
  "note_risk r factor acc =
     (if is_risk r
      then (case factor of
              None \<Rightarrow> None
            | Some f \<Rightarrow>
                (case risk_dict.recommendations r of
                   None \<Rightarrow> None
                 | Some rs \<Rightarrow>
                     Some \<lparr>risk_factors = risk_factors acc @ [f],
                           recs = recs acc @ rs,
                           severity_scores = severity_scores acc @ [risk_dict.severity r]\<rparr>))
      else Some acc)"

definition py_max :: "int list \<Rightarrow> int" where
  \<comment> \<open>\<open>max(severity_scores) if severity_scores else 0\<close>\<close>
  "py_max xs = (case xs of [] \<Rightarrow> 0 | x # rest \<Rightarrow> foldl max x rest)"

definition assess_financial_risks :: "transaction list \<Rightarrow> analysis_results \<Rightarrow> RiskAssessment option" where
  "assess_financial_risks transaction_data results =
     do {
       volatility_risk \<leftarrow> assess_spending_volatility transaction_data;
       a1 \<leftarrow> note_risk volatility_risk
               (map_option High_spending_volatility (score volatility_risk))
               \<lparr>risk_factors = [], recs = [], severity_scores = []\<rparr>;
       concentration_risk \<leftarrow> assess_category_concentration transaction_data;
       a2 \<leftarrow> note_risk concentration_risk
               (case (risk_dict.category concentration_risk, percentage concentration_risk) of
                  (Some c, Some p) \<Rightarrow> Some (Over_concentrated c p) | _ \<Rightarrow> None) a1;
       let trend_risk = assess_spending_trends results;
       a3 \<leftarrow> note_risk trend_risk
               (map_option Negative_spending_trend (trend_description trend_risk)) a2;
       let liquidity_risk = assess_liquidity_risk results;
       a4 \<leftarrow> note_risk liquidity_risk
               (map_option (\<lambda>(r, n). Liquidity_concern r n) (description liquidity_risk)) a3;
       let behavioral_risk = assess_behavioral_patterns transaction_data;
       a5 \<leftarrow> note_risk behavioral_risk
               (map_option Behavioral_pattern_risk (pattern behavioral_risk)) a4;
       let overall_severity = py_max (severity_scores a5);
       Some \<lparr>risk_level = determine_overall_risk_level overall_severity (length (risk_factors a5)),
             confidence = min 95 (60 + real (length (risk_factors a5)) * 10),
             factors = risk_factors a5,
             recommendations = recs a5,
             severity_score = overall_severity\<rparr>
     }"

definition no_results :: analysis_results where
  "no_results = \<lparr>category_trends = [], net_cash_flow = None, expense_to_income_ratio = None\<rparr>"

subsection \<open>Vocabulary for the properties of the risk officer\<close>

text \<open>
  The invariant of the three lists (they grow together, one entry per triggered check),
  the risk ladder as the specification words it, the weekend share of the expense total,
  and sample inputs: a Saturday batch, a batch split between a Saturday and a Wednesday
  (rows at noon), and analysis results with a negative cash flow.
\<close>

definition tracks :: "risk_lists \<Rightarrow> risk_dict list \<Rightarrow> bool" where
  "tracks acc checks \<longleftrightarrow>
     severity_scores acc = map risk_dict.severity (filter is_risk checks) \<and>
     length (risk_factors acc) = length (filter is_risk checks)"

definition overall_label :: "int \<Rightarrow> nat \<Rightarrow> string" where
  "overall_label sev n =
     (if sev \<ge> 80 \<or> n \<ge> 4 then ''High Risk''
      else if sev \<ge> 60 \<or> n \<ge> 3 then ''Moderate Risk''
      else if sev \<ge> 40 \<or> n \<ge> 2 then ''Low Risk''
      else if n = 1 then ''Minimal Risk''
      else ''Low Risk'')"

definition weekend_expense :: "transaction list \<Rightarrow> real" where
  "weekend_expense df =
     sum_list (map Abs_Amount (filter (\<lambda>t. Is_Expense t \<and> weekday (Date t) \<ge> 5) df))"

definition at_hour :: "int \<Rightarrow> transaction \<Rightarrow> transaction" where
  "at_hour h t = t\<lparr>Date := (Date t)\<lparr>hour := h\<rparr>\<rparr>"

definition saturday_batch :: "transaction list" where
  "saturday_batch = [at_hour 12 (row 739283 ''Brunch'' ''Food & Dining'' (- 10))]"

definition weekend_batch :: "transaction list" where
  "weekend_batch =
     [at_hour 12 (row 739283 ''Brunch'' ''Food & Dining'' (- 60)),
      at_hour 12 (row 739280 ''Groceries'' ''Food & Dining'' (- 40))]"

definition stressed_results :: analysis_results where
  "stressed_results =
     \<lparr>category_trends = [], net_cash_flow = Some (- 20), expense_to_income_ratio = Some (96 / 100)\<rparr>"

section \<open>Growth strategist (specialized_ai_roles.py)\<close>

record GrowthOpportunity =
  category :: string
  opportunity_type :: string
  potential_value :: real
  effort_level :: string
  timeframe :: string
  action_items :: "string list"









subsection \<open>Vocabulary for the properties of the growth strategist\<close>







section \<open>Properties of the overspending analyzer\<close>

lemma analyze_category_cases:
  "analyze_category A ex an item =
     (if is_over A item then an\<lparr>overspending_alerts := overspending_alerts an @ [over_entry A ex item]\<rparr>
      else if is_warn A item then an\<lparr>warning_alerts := warning_alerts an @ [warn_entry A ex item]\<rparr>
      else if is_within A item then an\<lparr>within_budget := within_budget an @ [within_entry A ex item]\<rparr>
      else an)"
  by (simp add: analyze_category_def Let_def is_over_def is_warn_def is_within_def
      over_entry_def warn_entry_def within_entry_def)

lemma is_exclusive:
  "is_over A item \<Longrightarrow> \<not> is_warn A item" "is_over A item \<Longrightarrow> \<not> is_within A item"
  "is_warn A item \<Longrightarrow> \<not> is_within A item"
  by (simp_all add: is_over_def is_warn_def is_within_def)

lemma loop_fields:
  "foldl (analyze_category A ex) an cs =
     an\<lparr>overspending_alerts := overspending_alerts an @ map (over_entry A ex) (filter (is_over A) cs),
        warning_alerts := warning_alerts an @ map (warn_entry A ex) (filter (is_warn A) cs),
        within_budget := within_budget an @ map (within_entry A ex) (filter (is_within A) cs)\<rparr>"
proof (induction cs arbitrary: an)
  case Nil
  show ?case by simp
next
  case (Cons item cs)
  show ?case
    unfolding foldl_Cons Cons.IH
    by (simp add: analyze_category_cases is_exclusive)
qed

lemma deduct_alerts_over:
  "deduct_alerts b (map (over_entry A ex) xs) = Some (b - sum_list (map (\<lambda>i. spec_penalty (item_pct A i)) xs))"
proof (induction xs arbitrary: b)
  case Nil
  show ?case by simp
next
  case (Cons x xs)
  have sev: "category_analysis.severity (over_entry A ex x) = Some (calculate_severity (item_pct A x))"
    by (simp add: over_entry_def item_pct_def)
  show ?case
    by (simp add: sev Cons.IH calculate_severity_def spec_penalty_def)
qed

lemma overspending_recommendations_over:
  "overspending_recommendations (map (over_entry A ex) xs) = Some (map (over_rec A) xs)"
proof (induction xs)
  case Nil
  show ?case by simp
next
  case (Cons x xs)
  have sev: "category_analysis.severity (over_entry A ex x) = Some (calculate_severity (item_pct A x))"
    by (simp add: over_entry_def item_pct_def)
  have f: "category_analysis.category (over_entry A ex x) = fst x" "percentage_used (over_entry A ex x) = item_pct A x"
     "over_amount (over_entry A ex x) = snd x - budget_get A (fst x)"
    by (simp_all add: over_entry_def item_pct_def category_dict_def)
  show ?case
    by (simp add: sev f Cons.IH calculate_severity_def over_rec_def)
qed

lemma min_by_mem: "min_by f b xs \<in> set (b # xs)"
  by (induction xs arbitrary: b) (auto split: if_splits)

lemma determine_risk_level_values:
  "determine_risk_level s \<noteq> ''High Risk''" "determine_risk_level s \<noteq> ''Medium Risk''"
  by (simp_all add: determine_risk_level_def)

lemma within_savings:
  "e \<in> set (map (within_entry A ex) ys) \<Longrightarrow> savings e = Some (budget e - spent e)"
  by (auto simp: within_entry_def category_dict_def)

lemma best_savings:
  "savings (min_by f (within_entry A ex y) (map (within_entry A ex) ys)) =
     Some (budget (min_by f (within_entry A ex y) (map (within_entry A ex) ys))
           - spent (min_by f (within_entry A ex y) (map (within_entry A ex) ys)))"
proof -
  have "min_by f (within_entry A ex y) (map (within_entry A ex) ys) \<in> set (map (within_entry A ex) (y # ys))"
    using min_by_mem [of f "within_entry A ex y" "map (within_entry A ex) ys"] by simp
  then show ?thesis by (rule within_savings)
qed

lemma within_recommendation:
  "(case map (within_entry A ex) ys of
      [] \<Rightarrow> Some r2
    | w # ws \<Rightarrow> (case savings (min_by percentage_used w ws) of None \<Rightarrow> None
                     | Some s \<Rightarrow> Some (r2 @ [Great_Job (category_analysis.category (min_by percentage_used w ws)) s])))
   = Some (r2 @ best_rec (map (within_entry A ex) ys))"
proof (cases ys)
  case Nil
  then show ?thesis by (simp add: best_rec_def)
next
  case (Cons y ys')
  show ?thesis
    unfolding Cons list.map list.case best_savings best_rec_def by simp
qed

lemma calculate_spending_score_loop:
  assumes "overspending_alerts an = map (over_entry A ex) xs"
  shows "calculate_spending_score A an
   = Some (let s3 = 100 - sum_list (map (\<lambda>i. spec_penalty (item_pct A i)) xs)
                     - int (length (warning_alerts an)) * 5 + int (length (within_budget an)) * 3;
               tb = total_budget A
           in min 100 (max 0 (if tb > 0 \<and> total_spent an < tb * (8 / 10)
                               then s3 + min 15 (py_int ((tb - total_spent an) / tb * 20)) else s3)))"
  by (simp add: calculate_spending_score_def assms deduct_alerts_over Let_def)

lemma generate_recommendations_loop:
  assumes "analysis.risk_level an \<noteq> ''High Risk''" "analysis.risk_level an \<noteq> ''Medium Risk''"
    and "overspending_alerts an = map (over_entry A ex) xs"
    and "warning_alerts an = map (warn_entry A ex) ws"
    and "within_budget an = map (within_entry A ex) ys"
  shows "generate_recommendations an
   = Some (map (over_rec A) xs @ map (warn_rec A) ws @ best_rec (map (within_entry A ex) ys))"
proof -
  have w: "map (\<lambda>w. Monitor (category_analysis.category w) (percentage_used w)) (map (warn_entry A ex) ws) = map (warn_rec A) ws"
    by (simp add: warn_rec_def warn_entry_def category_dict_def item_pct_def)
  show ?thesis
    unfolding generate_recommendations_def assms(3-5) overspending_recommendations_over
      option.case Let_def w within_recommendation
    using assms(1,2) by simp
qed

lemma analyze_closed_form:
  "analyze_daily_overspending A (first # rest) =
     Some (result_of A (Day (ordinal (Date first))) (filter Is_Expense (first # rest)))"
proof -
  define ex where "ex = filter Is_Expense (first # rest)"
  define cs where "cs = groupby_sum Category Abs_Amount ex"
  define a0 where "a0 = \<lparr>date = Day (ordinal (Date first)),
                    total_spent = sum_list (map Abs_Amount ex),
                    total_transactions = length ex,
                    categories_analyzed = length cs,
                    overspending_alerts = [], warning_alerts = [], within_budget = [],
                    analysis.recommendations = [], spending_score = 0, analysis.risk_level = ''Unknown''\<rparr>"
  define a1 where "a1 = foldl (analyze_category A ex) a0 cs"
  define a2 where "a2 = a1\<lparr>spending_score := score_of A ex,
                              analysis.risk_level := determine_risk_level (score_of A ex)\<rparr>"
  have a1: "overspending_alerts a1 = map (over_entry A ex) (filter (is_over A) cs)"
    "warning_alerts a1 = map (warn_entry A ex) (filter (is_warn A) cs)"
    "within_budget a1 = map (within_entry A ex) (filter (is_within A) cs)"
    "total_spent a1 = sum_list (map Abs_Amount ex)"
    "date a1 = Day (ordinal (Date first))" "total_transactions a1 = length ex"
    "categories_analyzed a1 = length cs"
    by (simp_all add: a1_def loop_fields a0_def)
  have score: "calculate_spending_score A a1 = Some (score_of A ex)"
    unfolding calculate_spending_score_loop [OF a1(1)]
    by (simp add: a1 score_of_def Let_def cs_def)
  have recs: "generate_recommendations a2 = Some (recs_of A ex)"
    unfolding recs_of_def Let_def cs_def [symmetric]
    by (rule generate_recommendations_loop) (simp_all add: a2_def a1 determine_risk_level_values)
  have res: "a2\<lparr>analysis.recommendations := recs_of A ex\<rparr> = result_of A (Day (ordinal (Date first))) ex"
    by (simp add: result_of_def Let_def cs_def [symmetric] a2_def a1)
  have "analyze_daily_overspending A (first # rest) =
      (case calculate_spending_score A a1 of None \<Rightarrow> None
       | Some sc \<Rightarrow>
           (case generate_recommendations (a1\<lparr>spending_score := sc,
                              analysis.risk_level := determine_risk_level sc\<rparr>) of None \<Rightarrow> None
            | Some rs \<Rightarrow> Some (a1\<lparr>spending_score := sc,
                              analysis.risk_level := determine_risk_level sc, analysis.recommendations := rs\<rparr>)))"
    unfolding analyze_daily_overspending_def list.case Let_def a1_def a0_def cs_def ex_def by simp
  also have "\<dots> = Some (a2\<lparr>analysis.recommendations := recs_of A ex\<rparr>)"
    unfolding score option.case a2_def [symmetric] recs by (simp add: a2_def)
  finally show ?thesis using res by (simp add: ex_def)
qed
















lemma total_expense_nonneg: "0 \<le> total_expense df"
  unfolding total_expense_def by (rule sum_list_nonneg) (auto simp: Abs_Amount_def)





lemma under_budget_bonus_bounds: "0 \<le> under_budget_bonus A df \<and> under_budget_bonus A df \<le> 15"
proof (cases "total_expense df < 8 / 10 * total_budget A")
  case True
  have "0 \<le> total_expense df" by (rule total_expense_nonneg)
  with True have tb: "0 < total_budget A" by simp
  with True have "0 \<le> (total_budget A - total_expense df) / total_budget A * 20"
    by (simp add: field_simps)
  then show ?thesis using True by (simp add: under_budget_bonus_def)
next
  case False
  then show ?thesis by (simp add: under_budget_bonus_def)
qed











lemma result_of_date: "result_of A d' ex = (result_of A d ex)\<lparr>date := d'\<rparr>"
  by (simp add: result_of_def Let_def)






lemma rec_kinds:
  "over_rec A i \<noteq> Daily_Limit_Tip" "over_rec A i \<noteq> Review_Limits_Tip"
  "warn_rec A i \<noteq> Daily_Limit_Tip" "warn_rec A i \<noteq> Review_Limits_Tip"
  by (simp_all add: over_rec_def warn_rec_def)

lemma best_rec_kinds:
  "Daily_Limit_Tip \<notin> set (best_rec ws)" "Review_Limits_Tip \<notin> set (best_rec ws)"
  by (cases ws; simp add: best_rec_def)+

lemma recs_of_no_tip:
  "Daily_Limit_Tip \<notin> set (recs_of A ex)" "Review_Limits_Tip \<notin> set (recs_of A ex)"
  using rec_kinds [of A] rec_kinds [of A, symmetric] by (auto simp: recs_of_def Let_def best_rec_kinds)

lemma generic_tip_unreachable:
  assumes "analyze_daily_overspending A df = Some an"
  shows "Daily_Limit_Tip \<notin> set (analysis.recommendations an) \<and> Review_Limits_Tip \<notin> set (analysis.recommendations an)"
proof (cases df)
  case Nil
  with assms show ?thesis by (auto simp: analyze_daily_overspending_def empty_analysis_def)
next
  case (Cons first rest)
  have "analysis.recommendations (result_of A d ex) = recs_of A ex" for d ex
    by (simp add: result_of_def Let_def)
  with assms show ?thesis
    unfolding Cons analyze_closed_form by (auto simp: recs_of_no_tip)
qed

text \<open>
  Claim C4. On the empty batch the analyzer returns the no-data result: nothing spent, no
  transactions, no categories analysed, the three alert lists empty, and the single
  no-data recommendation.
\<close>

theorem empty_batch:
  "\<exists>an. analyze_daily_overspending A [] = Some an \<and>
        total_spent an = 0 \<and> total_transactions an = 0 \<and> categories_analyzed an = 0 \<and>
        overspending_alerts an = [] \<and> warning_alerts an = [] \<and> within_budget an = [] \<and>
        analysis.recommendations an = [No_Data]"
  by (simp add: analyze_daily_overspending_def empty_analysis_def)

text \<open>
  Claim C5 does not hold of the code. \<open>_generate_recommendations\<close> appends its generic tip
  when the risk label is \<open>High Risk\<close> or \<open>Medium Risk\<close>, but \<open>_determine_risk_level\<close> only
  produces Excellent, Good, Fair, Poor and Critical, so neither tip is ever appended
  (\<open>generic_tip_unreachable\<close>). At \<open>critical_batch\<close>, four categories at 400% of their
  limits, the score is 0 and the label Critical, the most elevated one, and the
  recommendations are the four per-category ones only.
\<close>

theorem generic_tip_missing:
  "map_option analysis.risk_level (analyze_daily_overspending OverspendingAnalyzer critical_batch) = Some ''Critical'' \<and>
   map_option spending_score (analyze_daily_overspending OverspendingAnalyzer critical_batch) = Some 0 \<and>
   map_option analysis.recommendations (analyze_daily_overspending OverspendingAnalyzer critical_batch) =
     Some [Urgent ''Entertainment'' 400, Urgent ''Food & Dining'' 400,
           Urgent ''Shopping'' 400, Urgent ''Transportation'' 400]"
  by code_simp

section \<open>Properties of the risk officer\<close>

lemma idxmax_nonempty: "xs \<noteq> [] \<Longrightarrow> idxmax xs \<noteq> None"
  by (cases xs) (auto split: option.splits)

lemma series_std_defined: "2 \<le> length xs \<Longrightarrow> series_std xs \<noteq> None"
  by (simp add: series_std_def)

lemma volatility_keys:
  "\<exists>v. assess_spending_volatility df = Some v \<and>
       (is_risk v \<longrightarrow> score v \<noteq> None \<and> risk_dict.recommendations v \<noteq> None)"
proof (cases "df = [] \<or> length df < 7")
  case True
  then show ?thesis by (auto simp: assess_spending_volatility_def no_risk_def)
next
  case False
  define g where
    "g = groupby_sum (\<lambda>t. ordinal (Date t)) Abs_Amount (filter Is_Expense df)"
  show ?thesis
  proof (cases "length g < 3")
    case True
    with False show ?thesis
      by (simp add: assess_spending_volatility_def Let_def g_def [symmetric] no_risk_def)
  next
    case short: False
    then have "2 \<le> length (map snd g)" by simp
    then obtain sd where sd: "series_std (map snd g) = Some sd"
      using series_std_defined by blast
    from False short sd show ?thesis
      by (simp add: assess_spending_volatility_def Let_def g_def [symmetric])
  qed
qed

lemma concentration_keys:
  "\<exists>c. assess_category_concentration df = Some c \<and>
       (is_risk c \<longrightarrow> risk_dict.category c \<noteq> None \<and> percentage c \<noteq> None \<and>
          risk_dict.recommendations c \<noteq> None)"
proof (cases "df = []")
  case True
  then show ?thesis by (simp add: assess_category_concentration_def no_risk_def)
next
  case False
  define totals where "totals = groupby_sum Category Abs_Amount (filter Is_Expense df)"
  show ?thesis
  proof (cases "sum_list (map snd totals) = 0")
    case True
    with False show ?thesis
      by (simp add: assess_category_concentration_def Let_def totals_def [symmetric] no_risk_def)
  next
    case nz: False
    then have "totals \<noteq> []" by auto
    then obtain m t where m: "idxmax totals = Some (m, t)"
      using idxmax_nonempty by fastforce
    from False nz m show ?thesis
      by (simp add: assess_category_concentration_def Let_def totals_def [symmetric])
  qed
qed

lemma trend_keys:
  "trend_description (assess_spending_trends ar) \<noteq> None"
  "risk_dict.recommendations (assess_spending_trends ar) \<noteq> None"
  by (simp_all add: assess_spending_trends_def Let_def)

lemma liquidity_keys:
  "description (assess_liquidity_risk ar) \<noteq> None"
  "risk_dict.recommendations (assess_liquidity_risk ar) \<noteq> None"
  by (simp_all add: assess_liquidity_risk_def Let_def)

lemma behavioral_keys:
  "is_risk (assess_behavioral_patterns df) \<Longrightarrow> pattern (assess_behavioral_patterns df) \<noteq> None"
  "is_risk (assess_behavioral_patterns df) \<Longrightarrow>
     risk_dict.recommendations (assess_behavioral_patterns df) \<noteq> None"
  by (simp_all add: assess_behavioral_patterns_def Let_def no_risk_def split: if_splits)

lemma note_risk_tracks:
  assumes "tracks acc checks"
    and "is_risk r \<Longrightarrow> factor \<noteq> None" and "is_risk r \<Longrightarrow> risk_dict.recommendations r \<noteq> None"
  shows "\<exists>acc'. note_risk r factor acc = Some acc' \<and> tracks acc' (checks @ [r])"
proof (cases "is_risk r")
  case True
  with assms(2,3) obtain f rs where "factor = Some f" "risk_dict.recommendations r = Some rs"
    by auto
  with True assms(1) show ?thesis
    by (simp add: note_risk_def tracks_def)
next
  case False
  with assms(1) show ?thesis
    by (simp add: note_risk_def tracks_def)
qed

lemma py_max_Max: "xs \<noteq> [] \<Longrightarrow> py_max xs = Max (set xs)"
proof (cases xs)
  case Nil
  then show "xs \<noteq> [] \<Longrightarrow> ?thesis" by simp
next
  case (Cons x rest)
  have "foldl max x rest = fold max rest x"
    by (simp add: foldl_conv_fold max.commute)
  also have "\<dots> = Max (set (x # rest))"
    by (rule Max.set_eq_fold [symmetric])
  finally show ?thesis
    by (simp only: Cons py_max_def list.case)
qed

lemma assess_financial_risks_tracks:
  "\<exists>v c acc. assess_spending_volatility df = Some v \<and>
      assess_category_concentration df = Some c \<and>
      tracks acc [v, c, assess_spending_trends ar, assess_liquidity_risk ar,
                  assess_behavioral_patterns df] \<and>
      assess_financial_risks df ar =
        Some \<lparr>risk_level = determine_overall_risk_level (py_max (severity_scores acc))
                             (length (risk_factors acc)),
              confidence = min 95 (60 + real (length (risk_factors acc)) * 10),
              factors = risk_factors acc,
              recommendations = recs acc,
              severity_score = py_max (severity_scores acc)\<rparr>"
proof -
  let ?t = "assess_spending_trends ar" and ?l = "assess_liquidity_risk ar"
    and ?b = "assess_behavioral_patterns df"
  obtain v where v: "assess_spending_volatility df = Some v"
    and vk: "is_risk v \<Longrightarrow> score v \<noteq> None" "is_risk v \<Longrightarrow> risk_dict.recommendations v \<noteq> None"
    using volatility_keys [of df] by blast
  obtain c where c: "assess_category_concentration df = Some c"
    and ck: "is_risk c \<Longrightarrow> risk_dict.category c \<noteq> None" "is_risk c \<Longrightarrow> percentage c \<noteq> None"
      "is_risk c \<Longrightarrow> risk_dict.recommendations c \<noteq> None"
    using concentration_keys [of df] by blast
  have t0: "tracks \<lparr>risk_factors = [], recs = [], severity_scores = []\<rparr> []"
    by (simp add: tracks_def)
  have f1: "is_risk v \<Longrightarrow> map_option High_spending_volatility (score v) \<noteq> None"
    using vk(1) by simp
  from note_risk_tracks [OF t0 f1 vk(2)]
  obtain a1 where a1: "note_risk v (map_option High_spending_volatility (score v))
        \<lparr>risk_factors = [], recs = [], severity_scores = []\<rparr> = Some a1" and t1: "tracks a1 ([] @ [v])"
    by blast
  have f2: "is_risk c \<Longrightarrow> (case (risk_dict.category c, percentage c) of
           (Some c, Some p) \<Rightarrow> Some (Over_concentrated c p) | _ \<Rightarrow> None) \<noteq> None"
    using ck(1,2) by (auto split: option.splits)
  from note_risk_tracks [OF t1 f2 ck(3)]
  obtain a2 where a2: "note_risk c
        (case (risk_dict.category c, percentage c) of
           (Some c, Some p) \<Rightarrow> Some (Over_concentrated c p) | _ \<Rightarrow> None) a1 = Some a2"
    and t2: "tracks a2 (([] @ [v]) @ [c])"
    by blast
  have f3: "map_option Negative_spending_trend (trend_description ?t) \<noteq> None"
    using trend_keys(1) [of ar] by simp
  from note_risk_tracks [OF t2 f3 trend_keys(2)]
  obtain a3 where a3: "note_risk ?t (map_option Negative_spending_trend (trend_description ?t)) a2 = Some a3"
    and t3: "tracks a3 ((([] @ [v]) @ [c]) @ [?t])"
    by blast
  have f4: "map_option (\<lambda>(r, n). Liquidity_concern r n) (description ?l) \<noteq> None"
    using liquidity_keys(1) [of ar] by simp
  from note_risk_tracks [OF t3 f4 liquidity_keys(2)]
  obtain a4 where a4: "note_risk ?l (map_option (\<lambda>(r, n). Liquidity_concern r n) (description ?l)) a3 = Some a4"
    and t4: "tracks a4 (((([] @ [v]) @ [c]) @ [?t]) @ [?l])"
    by blast
  have f5: "is_risk ?b \<Longrightarrow> map_option Behavioral_pattern_risk (pattern ?b) \<noteq> None"
    using behavioral_keys(1) [of df] by simp
  from note_risk_tracks [OF t4 f5 behavioral_keys(2)]
  obtain a5 where a5: "note_risk ?b (map_option Behavioral_pattern_risk (pattern ?b)) a4 = Some a5"
    and t5: "tracks a5 ((((([] @ [v]) @ [c]) @ [?t]) @ [?l]) @ [?b])"
    by blast
  have t: "tracks a5 [v, c, ?t, ?l, ?b]" using t5 by simp
  have "assess_financial_risks df ar =
        Some \<lparr>risk_level = determine_overall_risk_level (py_max (severity_scores a5))
                             (length (risk_factors a5)),
              confidence = min 95 (60 + real (length (risk_factors a5)) * 10),
              factors = risk_factors a5,
              recommendations = recs a5,
              severity_score = py_max (severity_scores a5)\<rparr>"
    using v c a1 a2 a3 a4 a5 by (simp add: assess_financial_risks_def Let_def)
  with v c t show ?thesis by blast
qed

text \<open>
  Claim C3. For every batch and every analysis results the risk officer returns an
  assessment. With the triggered checks being those of the five (volatility,
  concentration, trend, liquidity, behavioural) that report a risk: the assessment lists
  one factor per triggered check; its severity score is the largest severity among the
  triggered checks, and 0 when none triggered; its risk level follows the ladder
  (\<open>overall_label\<close>: High Risk at severity 80 or four factors, Moderate Risk at 60 or
  three, Low Risk at 40 or two, Minimal Risk with exactly one factor, Low Risk
  otherwise), which gives Low Risk when no check triggered; and its confidence is the
  smaller of 95 and 60 + 10 per factor.
\<close>

theorem risk_composition:
  "\<exists>v c ra.
     assess_spending_volatility df = Some v \<and>
     assess_category_concentration df = Some c \<and>
     assess_financial_risks df ar = Some ra \<and>
     (let triggered = filter is_risk
            [v, c, assess_spending_trends ar, assess_liquidity_risk ar,
             assess_behavioral_patterns df];
          n = length triggered
      in length (factors ra) = n \<and>
         severity_score ra =
           (if triggered = [] then 0 else Max (set (map risk_dict.severity triggered))) \<and>
         RiskAssessment.risk_level ra = overall_label (severity_score ra) n \<and>
         (n = 0 \<longrightarrow> RiskAssessment.risk_level ra = ''Low Risk'') \<and>
         confidence ra = min 95 (60 + 10 * real n))"
proof -
  obtain v c acc where v: "assess_spending_volatility df = Some v"
    and c: "assess_category_concentration df = Some c"
    and t: "tracks acc [v, c, assess_spending_trends ar, assess_liquidity_risk ar,
                  assess_behavioral_patterns df]"
    and ra: "assess_financial_risks df ar =
        Some \<lparr>risk_level = determine_overall_risk_level (py_max (severity_scores acc))
                             (length (risk_factors acc)),
              confidence = min 95 (60 + real (length (risk_factors acc)) * 10),
              factors = risk_factors acc,
              recommendations = recs acc,
              severity_score = py_max (severity_scores acc)\<rparr>"
    using assess_financial_risks_tracks [of df ar] by blast
  define triggered where "triggered = filter is_risk
            [v, c, assess_spending_trends ar, assess_liquidity_risk ar,
             assess_behavioral_patterns df]"
  have s: "severity_scores acc = map risk_dict.severity triggered"
    and n: "length (risk_factors acc) = length triggered"
    using t by (simp_all add: tracks_def triggered_def)
  have m: "py_max (severity_scores acc) =
      (if triggered = [] then 0 else Max (set (map risk_dict.severity triggered)))"
  proof (cases "triggered = []")
    case True
    then show ?thesis by (simp add: s py_max_def)
  next
    case False
    then have "map risk_dict.severity triggered \<noteq> []" by simp
    then show ?thesis using False by (simp add: s py_max_Max)
  qed
  have l: "determine_overall_risk_level sev k = overall_label sev k" for sev k
    by (simp add: determine_overall_risk_level_def overall_label_def)
  have z: "length triggered = 0 \<longrightarrow>
      determine_overall_risk_level (py_max (severity_scores acc)) (length triggered) = ''Low Risk''"
    by (simp add: m determine_overall_risk_level_def)
  show ?thesis
    apply (rule exI [of _ v], rule exI [of _ c], rule exI)
    apply (intro conjI, rule v, rule c, rule ra)
    unfolding Let_def triggered_def [symmetric]
    using z by (simp add: n m l mult.commute)
qed

text \<open>
  Claim C10. For every input, the empty batch with no triggered factor included, the
  confidence of the returned assessment is at least 60 (and at most 95).
\<close>

theorem confidence_range:
  "\<exists>ra. assess_financial_risks df ar = Some ra \<and> 60 \<le> confidence ra \<and> confidence ra \<le> 95"
proof -
  from assess_financial_risks_tracks [of df ar]
  obtain acc :: risk_lists where "assess_financial_risks df ar =
        Some \<lparr>risk_level = determine_overall_risk_level (py_max (severity_scores acc))
                             (length (risk_factors acc)),
              confidence = min 95 (60 + real (length (risk_factors acc)) * 10),
              factors = risk_factors acc,
              recommendations = recs acc,
              severity_score = py_max (severity_scores acc)\<rparr>"
    by blast
  then show ?thesis by simp
qed

lemma sum_list_split:
  "sum_list (map f (filter P xs)) + sum_list (map f (filter (\<lambda>x. \<not> P x) xs)) = sum_list (map (f :: 'a \<Rightarrow> real) xs)"
  by (induction xs) auto

lemma weekday_expense:
  "sum_list (map Abs_Amount (filter (\<lambda>t. Is_Expense t \<and> weekday (Date t) < 5) df))
     = total_expense df - weekend_expense df"
proof -
  have "sum_list (map Abs_Amount (filter (\<lambda>t. weekday (Date t) \<ge> 5) (filter Is_Expense df))) +
      sum_list (map Abs_Amount (filter (\<lambda>t. \<not> weekday (Date t) \<ge> 5) (filter Is_Expense df)))
      = sum_list (map Abs_Amount (filter Is_Expense df))"
    by (rule sum_list_split)
  then show ?thesis
    by (simp add: total_expense_def weekend_expense_def not_le conj_commute)
qed

text \<open>
  Claim C8, as amended. Whenever the weekend (Saturday and Sunday) expense spend of a
  batch exceeds 40% of its total expense spend and the batch also has expense spend on
  a weekday, the behavioural check reports a risk, its patterns start with the weekend
  pattern, and its severity is the weekend increment of 30 plus 20 when the late-night
  pattern triggered plus 25 when the many-transactions pattern triggered.
\<close>

theorem weekend_pattern:
  assumes "weekend_expense df > 4 / 10 * total_expense df"
    and "weekend_expense df < total_expense df"
  shows "is_risk (assess_behavioral_patterns df) \<and>
     (\<exists>ps. pattern (assess_behavioral_patterns df) =
             Some (High_weekend_spending (weekend_expense df / total_expense df) # ps) \<and>
           risk_dict.severity (assess_behavioral_patterns df) =
             30 + (if Frequent_late_night_spending \<in> set ps then 20 else 0)
                + (if Frequent_multiple_daily_transactions \<in> set ps then 25 else 0))"
proof -
  have tot: "0 < total_expense df"
    using assms total_expense_nonneg [of df] by linarith
  then have we: "0 < weekend_expense df" using assms(1) by linarith
  have ne: "df \<noteq> []"
    using tot by (auto simp: total_expense_def)
  have ratio: "4 / 10 < weekend_expense df / total_expense df"
    using assms(1) tot by (simp add: field_simps)
  show ?thesis
    using ne we assms(2) ratio
    by (simp add: assess_behavioral_patterns_def Let_def weekend_expense_def [symmetric]
        weekday_expense no_risk_def)
qed

text \<open>
  Claim C8 as first stated has no condition on weekday spend. The weekend test is guarded
  by \<open>weekend_spending > 0 and weekday_spending > 0\<close>, so a batch whose whole expense
  spend falls on a Saturday (a weekend share of 100%) triggers nothing.
\<close>

theorem weekend_pattern_counterexample:
  "weekend_expense saturday_batch > 4 / 10 * total_expense saturday_batch \<and>
   \<not> is_risk (assess_behavioral_patterns saturday_batch) \<and>
   risk_dict.severity (assess_behavioral_patterns saturday_batch) = 0"
  by code_simp

text \<open>
  The theorem at \<open>weekend_batch\<close>: 60 spent on a Saturday and 40 on a Wednesday.
\<close>

theorem weekend_pattern_witness:
  "weekend_expense weekend_batch > 4 / 10 * total_expense weekend_batch \<and>
   weekend_expense weekend_batch < total_expense weekend_batch \<and>
   is_risk (assess_behavioral_patterns weekend_batch) \<and>
   30 \<le> risk_dict.severity (assess_behavioral_patterns weekend_batch)"
proof -
  have h: "weekend_expense weekend_batch > 4 / 10 * total_expense weekend_batch"
    "weekend_expense weekend_batch < total_expense weekend_batch"
    by code_simp+
  from weekend_pattern [OF h] show ?thesis
    using h by auto
qed

text \<open>
  The theorem at two inputs: \<open>sample_batch\<close> with a negative cash flow (concentration,
  liquidity and behavioural checks trigger, severities 74, 76 and 45), and the empty
  batch with empty analysis results (no check triggers).
\<close>

theorem risk_composition_witness:
  "(\<exists>ra. assess_financial_risks sample_batch stressed_results = Some ra \<and>
         length (factors ra) = 3 \<and> severity_score ra = 76 \<and>
         RiskAssessment.risk_level ra = ''Moderate Risk'' \<and> confidence ra = 90) \<and>
   (\<exists>ra. assess_financial_risks [] no_results = Some ra \<and>
         length (factors ra) = 0 \<and> severity_score ra = 0 \<and>
         RiskAssessment.risk_level ra = ''Low Risk'' \<and> confidence ra = 60)"
proof -
  have v1: "assess_spending_volatility sample_batch = Some no_risk"
    by (simp add: assess_spending_volatility_def Let_def sample_batch_def row_def Is_Expense_def
        groupby_sum_def group_keys_def)
  have c1: "map_option is_risk (assess_category_concentration sample_batch) = Some True"
    "map_option risk_dict.severity (assess_category_concentration sample_batch) = Some 74"
    by code_simp+
  have t1: "is_risk (assess_spending_trends stressed_results) = False"
    by code_simp
  have l1: "is_risk (assess_liquidity_risk stressed_results) = True"
    "risk_dict.severity (assess_liquidity_risk stressed_results) = 76"
    by code_simp+
  have b1: "is_risk (assess_behavioral_patterns sample_batch) = True"
    "risk_dict.severity (assess_behavioral_patterns sample_batch) = 45"
    by code_simp+
  have first: "\<exists>ra. assess_financial_risks sample_batch stressed_results = Some ra \<and>
         length (factors ra) = 3 \<and> severity_score ra = 76 \<and>
         RiskAssessment.risk_level ra = ''Moderate Risk'' \<and> confidence ra = 90"
    using risk_composition [of sample_batch stressed_results] v1 c1 t1 l1 b1
    by (auto simp: Let_def overall_label_def no_risk_def)
  have v0: "assess_spending_volatility [] = Some no_risk"
    by (simp add: assess_spending_volatility_def)
  have c0: "assess_category_concentration [] = Some no_risk"
    by (simp add: assess_category_concentration_def)
  have r0: "is_risk (assess_spending_trends no_results) = False"
    "is_risk (assess_liquidity_risk no_results) = False"
    "is_risk (assess_behavioral_patterns []) = False"
    by code_simp+
  have second: "\<exists>ra. assess_financial_risks [] no_results = Some ra \<and>
         length (factors ra) = 0 \<and> severity_score ra = 0 \<and>
         RiskAssessment.risk_level ra = ''Low Risk'' \<and> confidence ra = 60"
    using risk_composition [of "[]" no_results] v0 c0 r0
    by (auto simp: Let_def no_risk_def)
  from first second show ?thesis by (rule conjI)
qed

section \<open>Properties of the growth strategist\<close>
















section \<open>Properties of the normalizer\<close>













end
